theory Spec2Isabelle
  imports Main "HOL-Library.Char_ord"
begin

section \<open>Data model\<close>

subsection \<open>Response envelope and usage metadata (models file)\<close>

text \<open>
  \<^verbatim>\<open>type APIMeta struct { CreditsUsed int; CreditsRemaining int; RateLimitRemaining *int }\<close>
  and the generic envelope \<^verbatim>\<open>APIResponse[T]\<close> with its optional \<^verbatim>\<open>Meta *APIMeta\<close>.
  A Go pointer that may be nil is an \<open>option\<close>.
\<close>

record APIMeta =
  CreditsUsed :: int
  CreditsRemaining :: int
  RateLimitRemaining :: "int option"

record 'a APIResponse =
  Success :: bool
  Data :: 'a
  Message :: string
  Meta :: "APIMeta option"

text \<open>
  \<^verbatim>\<open>func (r *APIResponse[T]) CreditsUsed() int { if r.Meta != nil { return r.Meta.CreditsUsed }; return 0 }\<close>
\<close>

definition APIResponse_CreditsUsed :: "'a APIResponse \<Rightarrow> int" where
  "APIResponse_CreditsUsed r =
     (case Meta r of Some m \<Rightarrow> CreditsUsed m | None \<Rightarrow> 0)"

definition APIResponse_CreditsRemaining :: "'a APIResponse \<Rightarrow> int" where
  "APIResponse_CreditsRemaining r =
     (case Meta r of Some m \<Rightarrow> CreditsRemaining m | None \<Rightarrow> 0)"

subsection \<open>Error values\<close>

text \<open>
  \<^verbatim>\<open>type APIErrorResponse struct { Error string `json:"error"` }\<close>: the JSON error body as
  the HTTP library decodes it.
\<close>

record APIErrorResponse =
  Error :: string

text \<open>
  What the HTTP library itself reports when a round trip yields no response.
\<close>

datatype transport_failure =
    ConnectionFailed string
  | DeadlineExceeded string

text \<open>
  Go's \<^verbatim>\<open>error\<close> interface, restricted to the values that occur in this package: the
  seven error structs of the types file (fields in declaration order: Message,
  StatusCode), the plain errors made by \<^verbatim>\<open>fmt.Errorf\<close>, and the two errors of the
  HTTP library that the methods pass on as they are: the error of a round trip without a
  response, and the JSON decoder's error for a successful reply whose body does not
  decode into the result object.
\<close>

datatype error =
    APIError string int
  | AuthenticationError string int
  | NotFoundError string int
  | ValidationError string int
  | RateLimitError string int
  | NetworkError string
  | TimeoutError string
  | Errorf string
  | LibraryError transport_failure
  | DecodeError string

datatype error_kind =
    KGeneric | KAuthentication | KNotFound | KValidation | KRateLimit
  | KNetwork | KTimeout | KConfiguration | KUnmapped

fun kind_of :: "error \<Rightarrow> error_kind" where
  "kind_of (APIError _ _) = KGeneric"
| "kind_of (AuthenticationError _ _) = KAuthentication"
| "kind_of (NotFoundError _ _) = KNotFound"
| "kind_of (ValidationError _ _) = KValidation"
| "kind_of (RateLimitError _ _) = KRateLimit"
| "kind_of (NetworkError _) = KNetwork"
| "kind_of (TimeoutError _) = KTimeout"
| "kind_of (Errorf _) = KConfiguration"
| "kind_of (LibraryError _) = KUnmapped"
| "kind_of (DecodeError _) = KUnmapped"

fun message_of :: "error \<Rightarrow> string option" where
  "message_of (APIError m _) = Some m"
| "message_of (AuthenticationError m _) = Some m"
| "message_of (NotFoundError m _) = Some m"
| "message_of (ValidationError m _) = Some m"
| "message_of (RateLimitError m _) = Some m"
| "message_of (NetworkError m) = Some m"
| "message_of (TimeoutError m) = Some m"
| "message_of (Errorf m) = Some m"
| "message_of (LibraryError _) = None"
| "message_of (DecodeError _) = None"

fun status_of :: "error \<Rightarrow> int option" where
  "status_of (APIError _ c) = Some c"
| "status_of (AuthenticationError _ c) = Some c"
| "status_of (NotFoundError _ c) = Some c"
| "status_of (ValidationError _ c) = Some c"
| "status_of (RateLimitError _ c) = Some c"
| "status_of _ = None"

subsection \<open>The HTTP response as the error mapping reads it\<close>

text \<open>
  The library's response object. \<open>ErrorObj\<close> is what \<^verbatim>\<open>resp.Error()\<close> returns: the
  error object registered with \<^verbatim>\<open>SetError(&APIErrorResponse{})\<close>, filled from a JSON
  body, or nil. A body that does not parse leaves the object with its zero value, the
  empty string.
\<close>

record Response =
  StatusCode :: int
  RespHeader :: "(string \<times> string) list"
  RespBody :: string
  ErrorObj :: "APIErrorResponse option"

section \<open>Library functions the client calls\<close>

text \<open>\<^verbatim>\<open>fmt.Sprintf("%d", n)\<close>: the decimal digits of an integer, with a minus sign.\<close>

definition digit_char :: "nat \<Rightarrow> char" where
  "digit_char d = char_of (48 + d)"

fun nat_decimal :: "nat \<Rightarrow> string" where
  "nat_decimal n =
     (if n < 10 then [digit_char n] else nat_decimal (n div 10) @ [digit_char (n mod 10)])"

declare nat_decimal.simps [simp del]

definition Sprintf_d :: "int \<Rightarrow> string" where
  "Sprintf_d i = (if i < 0 then CHR ''-'' # nat_decimal (nat (- i)) else nat_decimal (nat i))"

text \<open>\<^verbatim>\<open>http.StatusText\<close>: the reason phrase of a status code, empty when unknown.\<close>

definition status_phrases :: "(int \<times> string) list" where
  "status_phrases =
   [(100, ''Continue''), (101, ''Switching Protocols''), (102, ''Processing''),
    (103, ''Early Hints''),
    (200, ''OK''), (201, ''Created''), (202, ''Accepted''),
    (203, ''Non-Authoritative Information''), (204, ''No Content''),
    (205, ''Reset Content''), (206, ''Partial Content''), (207, ''Multi-Status''),
    (208, ''Already Reported''), (226, ''IM Used''),
    (300, ''Multiple Choices''), (301, ''Moved Permanently''), (302, ''Found''),
    (303, ''See Other''), (304, ''Not Modified''), (305, ''Use Proxy''),
    (307, ''Temporary Redirect''), (308, ''Permanent Redirect''),
    (400, ''Bad Request''), (401, ''Unauthorized''), (402, ''Payment Required''),
    (403, ''Forbidden''), (404, ''Not Found''), (405, ''Method Not Allowed''),
    (406, ''Not Acceptable''), (407, ''Proxy Authentication Required''),
    (408, ''Request Timeout''), (409, ''Conflict''), (410, ''Gone''),
    (411, ''Length Required''), (412, ''Precondition Failed''),
    (413, ''Request Entity Too Large''), (414, ''Request URI Too Long''),
    (415, ''Unsupported Media Type''), (416, ''Requested Range Not Satisfiable''),
    (417, ''Expectation Failed''), (418, ''I'' @ [CHR 0x27] @ ''m a teapot''),
    (421, ''Misdirected Request''), (422, ''Unprocessable Entity''), (423, ''Locked''),
    (424, ''Failed Dependency''), (425, ''Too Early''), (426, ''Upgrade Required''),
    (428, ''Precondition Required''), (429, ''Too Many Requests''),
    (431, ''Request Header Fields Too Large''),
    (451, ''Unavailable For Legal Reasons''),
    (500, ''Internal Server Error''), (501, ''Not Implemented''),
    (502, ''Bad Gateway''), (503, ''Service Unavailable''), (504, ''Gateway Timeout''),
    (505, ''HTTP Version Not Supported''), (506, ''Variant Also Negotiates''),
    (507, ''Insufficient Storage''), (508, ''Loop Detected''), (510, ''Not Extended''),
    (511, ''Network Authentication Required'')]"

definition StatusText :: "int \<Rightarrow> string" where
  "StatusText code = (case map_of status_phrases code of Some s \<Rightarrow> s | None \<Rightarrow> [])"

section \<open>Error mapping\<close>

text \<open>
  \<^verbatim>\<open>func handleErrorResponse(resp *resty.Response) error\<close>. The message is computed first:
  the body's \<^verbatim>\<open>error\<close> field when the decoded object is there and the field is not
  empty, the line \<^verbatim>\<open>HTTP <code>: <phrase>\<close> otherwise. The switch on the status code
  follows.
\<close>

definition errorMsg :: "Response \<Rightarrow> string" where
  "errorMsg resp =
     (case ErrorObj resp of
        Some errorResp \<Rightarrow>
          (if Error errorResp \<noteq> [] then Error errorResp
           else ''HTTP '' @ Sprintf_d (StatusCode resp) @ '': '' @ StatusText (StatusCode resp))
      | None \<Rightarrow>
          ''HTTP '' @ Sprintf_d (StatusCode resp) @ '': '' @ StatusText (StatusCode resp))"

definition handleErrorResponse :: "Response \<Rightarrow> error" where
  "handleErrorResponse resp =
     (let statusCode = StatusCode resp in
      if statusCode = 401 then
        AuthenticationError ''Authentication failed. Check your API key.'' statusCode
      else if statusCode = 404 then
        NotFoundError ''Resource not found'' statusCode
      else if statusCode = 422 then
        ValidationError ''Request validation failed. Check your parameters.'' statusCode
      else if statusCode = 429 then
        RateLimitError ''Rate limit exceeded. Please slow down your requests.'' statusCode
      else
        APIError (errorMsg resp) statusCode)"

section \<open>Client construction\<close>

subsection \<open>The key pattern and its matcher\<close>

text \<open>
  The expressions that \<^verbatim>\<open>regexp.MatchString\<close> is given, as syntax trees: literals,
  character classes as lists of inclusive ranges, sequence, alternation and iteration.
  \<open>Never\<close> matches nothing and arises only while matching. The matcher works on
  bytes; a byte of a multi-byte character is outside every ASCII class and literal.
\<close>

datatype regexp =
    Never
  | Empty
  | Lit char
  | Class "(char \<times> char) list"
  | Seq regexp regexp
  | Alt regexp regexp
  | Star regexp

definition Plus :: "regexp \<Rightarrow> regexp" where
  "Plus r = Seq r (Star r)"

fun Str :: "string \<Rightarrow> regexp" where
  "Str [] = Empty"
| "Str (c # cs) = Seq (Lit c) (Str cs)"

definition between :: "char \<Rightarrow> char \<Rightarrow> char \<Rightarrow> bool" where
  "between lo hi c = (lo \<le> c \<and> c \<le> hi)"

definition in_ranges :: "(char \<times> char) list \<Rightarrow> char \<Rightarrow> bool" where
  "in_ranges rs c = list_ex (\<lambda>(lo, hi). between lo hi c) rs"

fun nullable :: "regexp \<Rightarrow> bool" where
  "nullable Never = False"
| "nullable Empty = True"
| "nullable (Lit _) = False"
| "nullable (Class _) = False"
| "nullable (Seq r s) = (nullable r \<and> nullable s)"
| "nullable (Alt r s) = (nullable r \<or> nullable s)"
| "nullable (Star _) = True"

fun deriv :: "char \<Rightarrow> regexp \<Rightarrow> regexp" where
  "deriv c Never = Never"
| "deriv c Empty = Never"
| "deriv c (Lit d) = (if c = d then Empty else Never)"
| "deriv c (Class rs) = (if in_ranges rs c then Empty else Never)"
| "deriv c (Seq r s) =
     (if nullable r then Alt (Seq (deriv c r) s) (deriv c s) else Seq (deriv c r) s)"
| "deriv c (Alt r s) = Alt (deriv c r) (deriv c s)"
| "deriv c (Star r) = Seq (deriv c r) (Star r)"

fun accepts :: "regexp \<Rightarrow> string \<Rightarrow> bool" where
  "accepts r [] = nullable r"
| "accepts r (c # cs) = accepts (deriv c r) cs"

text \<open>
  \<^verbatim>\<open>regexp.MatchString("^" + r + "$", s)\<close>: with both anchors and no flags, a match is
  a match of the whole text against \<open>r\<close>. The pattern compiles, so the error that the
  source discards is nil.
\<close>

definition MatchString_anchored :: "regexp \<Rightarrow> string \<Rightarrow> bool" where
  "MatchString_anchored r s = accepts r s"

text \<open>The pattern of the source: \<^verbatim>\<open>^ss_(live|test)_[a-zA-Z0-9]+$\<close>.\<close>

definition key_pattern :: regexp where
  "key_pattern =
     Seq (Str ''ss_'')
       (Seq (Alt (Str ''live'') (Str ''test''))
         (Seq (Lit (CHR ''_''))
           (Plus (Class [(CHR ''a'', CHR ''z''), (CHR ''A'', CHR ''Z''), (CHR ''0'', CHR ''9'')]))))"

subsection \<open>What the patterns denote\<close>

inductive_set star :: "string set \<Rightarrow> string set" for L :: "string set" where
  star_empty: "[] \<in> star L"
| star_step: "u \<in> L \<Longrightarrow> v \<in> star L \<Longrightarrow> u @ v \<in> star L"

fun lang :: "regexp \<Rightarrow> string set" where
  "lang Never = {}"
| "lang Empty = {[]}"
| "lang (Lit c) = {[c]}"
| "lang (Class rs) = {w. \<exists>c. w = [c] \<and> in_ranges rs c}"
| "lang (Seq r s) = {w. \<exists>u v. w = u @ v \<and> u \<in> lang r \<and> v \<in> lang s}"
| "lang (Alt r s) = lang r \<union> lang s"
| "lang (Star r) = star (lang r)"

text \<open>
  The key format in the specification's words, with the prefix the source fixes:
  \<open>ss\<close>, an underscore, \<open>live\<close> or \<open>test\<close>, an underscore, and a suffix of one or more
  ASCII letters and digits.
\<close>

definition alphanumeric :: "char \<Rightarrow> bool" where
  "alphanumeric c =
     (between (CHR ''a'') (CHR ''z'') c \<or> between (CHR ''A'') (CHR ''Z'') c \<or>
      between (CHR ''0'') (CHR ''9'') c)"

definition spec_key_format :: "string \<Rightarrow> bool" where
  "spec_key_format k =
     (\<exists>env suffix. k = ''ss_'' @ env @ ''_'' @ suffix \<and> (env = ''live'' \<or> env = ''test'') \<and>
        suffix \<noteq> [] \<and> list_all alphanumeric suffix)"

subsection \<open>Configuration, options and the client\<close>

text \<open>\<^verbatim>\<open>time.Duration\<close> counts nanoseconds; \<^verbatim>\<open>time.Second\<close> is 1000000000.\<close>

definition Second :: int where
  "Second = 1000000000"

definition Version :: string where
  "Version = ''1.0.1''"

record Config =
  APIKey :: string
  BaseURL :: string
  Timeout :: int

text \<open>
  \<^verbatim>\<open>type Option func(*Config)\<close>: an option updates the configuration in place; here it
  returns the updated configuration.
\<close>

type_synonym Option = "Config \<Rightarrow> Config"

definition WithBaseURL :: "string \<Rightarrow> Option" where
  "WithBaseURL baseURL = (\<lambda>c. c\<lparr>BaseURL := baseURL\<rparr>)"

definition WithTimeout :: "int \<Rightarrow> Option" where
  "WithTimeout timeout = (\<lambda>c. c\<lparr>Timeout := timeout\<rparr>)"

definition provided_option :: "Option \<Rightarrow> bool" where
  "provided_option opt = ((\<exists>u. opt = WithBaseURL u) \<or> (\<exists>t. opt = WithTimeout t))"

text \<open>
  The settings of the HTTP library's client after the chain of setters in
  \<^verbatim>\<open>NewClient\<close>: base URL, timeout, the three headers in the order they are set, the
  registered error object, and the after-response callbacks.
\<close>

record RestyClient =
  HostURL :: string
  ClientTimeout :: int
  Headers :: "(string \<times> string) list"
  ErrorProto :: "APIErrorResponse option"
  afterResponse :: "(Response \<Rightarrow> error option) list"

record Client =
  config :: Config
  client :: RestyClient

text \<open>\<^verbatim>\<open>resp.IsError()\<close> of the HTTP library: a status code above 399.\<close>

definition IsError :: "Response \<Rightarrow> bool" where
  "IsError resp = (StatusCode resp > 399)"

text \<open>An outbound HTTP request, as an endpoint method builds it.\<close>

record Request =
  Method :: string
  URL :: string
  QueryParam :: "string \<rightharpoonup> string"
  Body :: "(string \<rightharpoonup> string) option"

text \<open>
  \<^verbatim>\<open>func NewClient(apiKey string, options ...Option) (*Client, error)\<close>. Every operation
  of the client returns, next to its result, the list of HTTP requests it sent.
\<close>

definition NewClient :: "string \<Rightarrow> Option list \<Rightarrow> (error + Client) \<times> Request list" where
  "NewClient apiKey options =
     (let cfg = \<lparr>APIKey = apiKey, BaseURL = ''https://api.shopsavvy.com/v1'',
                 Timeout = 30 * Second\<rparr>;
          cfg = fold (\<lambda>option c. option c) options cfg
      in
        if APIKey cfg = [] then
          (Inl (Errorf ''API key is required. Get one at https://shopsavvy.com/data''), [])
        else
          let matched = MatchString_anchored key_pattern (APIKey cfg) in
          if \<not> matched then
            (Inl (Errorf
               ''invalid API key format. API keys should start with ss_live_ or ss_test_''), [])
          else
            (Inr \<lparr>config = cfg,
                  client =
                    \<lparr>HostURL = BaseURL cfg,
                     ClientTimeout = Timeout cfg,
                     Headers =
                       [(''Authorization'', ''Bearer '' @ APIKey cfg),
                        (''Content-Type'', ''application/json''),
                        (''User-Agent'', ''ShopSavvy-Go-SDK/'' @ Version)],
                     ErrorProto = Some \<lparr>Error = []\<rparr>,
                     afterResponse =
                       [\<lambda>resp. if IsError resp then Some (handleErrorResponse resp)
                               else None]\<rparr>\<rparr>, []))"

text \<open>
  The client that \<^verbatim>\<open>NewClient("ss_live_abc123")\<close> returns, written out: the value
  used in the concrete runs below.
\<close>

definition live_client :: Client where
  "live_client =
     \<lparr>config = \<lparr>APIKey = ''ss_live_abc123'', BaseURL = ''https://api.shopsavvy.com/v1'',
                 Timeout = 30000000000\<rparr>,
      client =
        \<lparr>HostURL = ''https://api.shopsavvy.com/v1'',
         ClientTimeout = 30000000000,
         Headers =
           [(''Authorization'', ''Bearer ss_live_abc123''),
            (''Content-Type'', ''application/json''),
            (''User-Agent'', ''ShopSavvy-Go-SDK/1.0.1'')],
         ErrorProto = Some \<lparr>Error = []\<rparr>,
         afterResponse =
           [\<lambda>resp. if IsError resp then Some (handleErrorResponse resp) else None]\<rparr>\<rparr>"

section \<open>Endpoint methods\<close>

subsection \<open>One round trip\<close>

text \<open>
  What the library has in hand after sending a request and reading the reply: no
  response at all (a transport failure); a successful JSON response whose body did not
  decode into the result object, with the decoder's message; or a response together
  with the content of the result object (the decoded value, or its zero value when
  nothing was decoded, as for every failed response).
\<close>

datatype 'a Reply =
    NoResponse transport_failure
  | Undecoded Response string
  | Responded Response 'a

type_synonym 'a Network = "Request \<Rightarrow> 'a Reply"

text \<open>Two networks for concrete runs: one that never answers, one that always answers alike.\<close>

definition unreachable :: "transport_failure \<Rightarrow> 'a Network" where
  "unreachable f = (\<lambda>req. NoResponse f)"

definition answering :: "Response \<Rightarrow> 'a \<Rightarrow> 'a Network" where
  "answering resp result = (\<lambda>req. Responded resp result)"

fun run_callbacks :: "(Response \<Rightarrow> error option) list \<Rightarrow> Response \<Rightarrow> error option" where
  "run_callbacks [] resp = None"
| "run_callbacks (f # fs) resp =
     (case f resp of Some err \<Rightarrow> Some err | None \<Rightarrow> run_callbacks fs resp)"

text \<open>
  \<^verbatim>\<open>c.client.R()...Get(path)\<close> and its siblings: the library sends the request once
  (no retry is configured). Without a response it returns its own error. With one, its
  own body parser runs first and its decoding error ends the call; then the
  after-response callbacks of the client run, and the first error one of them gives is
  returned.
\<close>

definition Execute :: "Client \<Rightarrow> Request \<Rightarrow> 'a Network \<Rightarrow> (error + 'a) \<times> Request list" where
  "Execute c req net =
     (case net req of
        NoResponse f \<Rightarrow> (Inl (LibraryError f), [req])
      | Undecoded resp msg \<Rightarrow> (Inl (DecodeError msg), [req])
      | Responded resp result \<Rightarrow>
          (case run_callbacks (afterResponse (client c)) resp of
             Some err \<Rightarrow> (Inl err, [req])
           | None \<Rightarrow> (Inr result, [req])))"

text \<open>
  \<^verbatim>\<open>strings.Join(elems, sep)\<close>: nothing for no element, the element itself for one,
  otherwise the first element followed by separator and element for each of the rest.
\<close>

definition Join :: "string list \<Rightarrow> string \<Rightarrow> string" where
  "Join elems sep =
     (case elems of
        [] \<Rightarrow> []
      | [e] \<Rightarrow> e
      | e # rest \<Rightarrow> foldl (\<lambda>b s. b @ sep @ s) e rest)"

text \<open>The specification's comma-joined list, in input order.\<close>

fun comma_joined :: "string list \<Rightarrow> string" where
  "comma_joined [] = []"
| "comma_joined [x] = x"
| "comma_joined (x # y # ys) = x @ '','' @ comma_joined (y # ys)"

subsection \<open>The methods\<close>

text \<open>\<^verbatim>\<open>len(format) > 0 && format[0] != ""\<close>, then \<^verbatim>\<open>params["format"] = format[0]\<close>.\<close>

definition with_format :: "string list \<Rightarrow> (string \<rightharpoonup> string) \<Rightarrow> (string \<rightharpoonup> string)" where
  "with_format format params =
     (if length format > 0 \<and> format ! 0 \<noteq> [] then params(''format'' \<mapsto> format ! 0)
      else params)"

definition with_retailer :: "string \<Rightarrow> (string \<rightharpoonup> string) \<Rightarrow> (string \<rightharpoonup> string)" where
  "with_retailer retailer params =
     (if retailer \<noteq> [] then params(''retailer'' \<mapsto> retailer) else params)"

text \<open>
  Each method returns the decoded envelope or the error of the round trip:
  \<^verbatim>\<open>if err != nil { return nil, err }; return &response, nil\<close>.
\<close>

text \<open>
  \<^verbatim>\<open>SearchProducts(query string, limit, offset int)\<close>: the result type \<open>'r\<close> stands for
  \<^verbatim>\<open>ProductSearchResult\<close>.
\<close>

definition SearchProducts ::
  "Client \<Rightarrow> string \<Rightarrow> int \<Rightarrow> int \<Rightarrow> 'r Network \<Rightarrow> (error + 'r) \<times> Request list" where
  "SearchProducts c query limit offset net =
     (let params = [''q'' \<mapsto> query];
          params = (if limit > 0 then params(''limit'' \<mapsto> Sprintf_d limit) else params);
          params = (if offset > 0 then params(''offset'' \<mapsto> Sprintf_d offset) else params)
      in
      Execute c
        \<lparr>Method = ''GET'', URL = ''/products/search'', QueryParam = params, Body = None\<rparr> net)"

definition GetProductDetails ::
  "Client \<Rightarrow> string \<Rightarrow> string list \<Rightarrow> 'd APIResponse Network \<Rightarrow>
   (error + 'd APIResponse) \<times> Request list" where
  "GetProductDetails c identifier format net =
     (let params = with_format format [''ids'' \<mapsto> identifier] in
      Execute c \<lparr>Method = ''GET'', URL = ''/products'', QueryParam = params, Body = None\<rparr> net)"

definition GetProductDetailsBatch ::
  "Client \<Rightarrow> string list \<Rightarrow> string list \<Rightarrow> 'd APIResponse Network \<Rightarrow>
   (error + 'd APIResponse) \<times> Request list" where
  "GetProductDetailsBatch c identifiers format net =
     (let params = with_format format [''ids'' \<mapsto> Join identifiers '',''] in
      Execute c \<lparr>Method = ''GET'', URL = ''/products'', QueryParam = params, Body = None\<rparr> net)"

definition GetCurrentOffers ::
  "Client \<Rightarrow> string \<Rightarrow> string \<Rightarrow> string list \<Rightarrow> 'd APIResponse Network \<Rightarrow>
   (error + 'd APIResponse) \<times> Request list" where
  "GetCurrentOffers c identifier retailer format net =
     (let params = with_format format (with_retailer retailer [''ids'' \<mapsto> identifier]) in
      Execute c
        \<lparr>Method = ''GET'', URL = ''/products/offers'', QueryParam = params, Body = None\<rparr> net)"

definition GetCurrentOffersBatch ::
  "Client \<Rightarrow> string list \<Rightarrow> string \<Rightarrow> string list \<Rightarrow> 'd APIResponse Network \<Rightarrow>
   (error + 'd APIResponse) \<times> Request list" where
  "GetCurrentOffersBatch c identifiers retailer format net =
     (let params = with_format format (with_retailer retailer [''ids'' \<mapsto> Join identifiers '','']) in
      Execute c
        \<lparr>Method = ''GET'', URL = ''/products/offers'', QueryParam = params, Body = None\<rparr> net)"

definition GetPriceHistory ::
  "Client \<Rightarrow> string \<Rightarrow> string \<Rightarrow> string \<Rightarrow> string \<Rightarrow> string list \<Rightarrow>
   'd APIResponse Network \<Rightarrow> (error + 'd APIResponse) \<times> Request list" where
  "GetPriceHistory c identifier startDate endDate retailer format net =
     (let params = with_format format (with_retailer retailer
                     [''ids'' \<mapsto> identifier, ''start_date'' \<mapsto> startDate,
                      ''end_date'' \<mapsto> endDate]) in
      Execute c
        \<lparr>Method = ''GET'', URL = ''/products/offers/history'', QueryParam = params,
         Body = None\<rparr> net)"

text \<open>\<^verbatim>\<open>len(retailer) > 0 && retailer[0] != ""\<close>, then \<^verbatim>\<open>body["retailer"] = retailer[0]\<close>.\<close>

definition with_retailer_arg :: "string list \<Rightarrow> (string \<rightharpoonup> string) \<Rightarrow> (string \<rightharpoonup> string)" where
  "with_retailer_arg retailer body =
     (if length retailer > 0 \<and> retailer ! 0 \<noteq> [] then body(''retailer'' \<mapsto> retailer ! 0)
      else body)"

definition ScheduleProductMonitoring ::
  "Client \<Rightarrow> string \<Rightarrow> string \<Rightarrow> string list \<Rightarrow> 'd APIResponse Network \<Rightarrow>
   (error + 'd APIResponse) \<times> Request list" where
  "ScheduleProductMonitoring c identifier frequency retailer net =
     (let body = with_retailer_arg retailer
                   [''identifier'' \<mapsto> identifier, ''frequency'' \<mapsto> frequency] in
      Execute c
        \<lparr>Method = ''POST'', URL = ''/products/schedule'', QueryParam = Map.empty,
         Body = Some body\<rparr> net)"

definition ScheduleProductMonitoringBatch ::
  "Client \<Rightarrow> string list \<Rightarrow> string \<Rightarrow> string list \<Rightarrow> 'd APIResponse Network \<Rightarrow>
   (error + 'd APIResponse) \<times> Request list" where
  "ScheduleProductMonitoringBatch c identifiers frequency retailer net =
     (let body = with_retailer_arg retailer
                   [''identifiers'' \<mapsto> Join identifiers '','', ''frequency'' \<mapsto> frequency] in
      Execute c
        \<lparr>Method = ''POST'', URL = ''/products/schedule'', QueryParam = Map.empty,
         Body = Some body\<rparr> net)"

definition GetScheduledProducts ::
  "Client \<Rightarrow> 'd APIResponse Network \<Rightarrow> (error + 'd APIResponse) \<times> Request list" where
  "GetScheduledProducts c net =
     Execute c
       \<lparr>Method = ''GET'', URL = ''/products/scheduled'', QueryParam = Map.empty,
        Body = None\<rparr> net"

definition RemoveProductFromSchedule ::
  "Client \<Rightarrow> string \<Rightarrow> 'd APIResponse Network \<Rightarrow>
   (error + 'd APIResponse) \<times> Request list" where
  "RemoveProductFromSchedule c identifier net =
     (let body = [''identifier'' \<mapsto> identifier] in
      Execute c
        \<lparr>Method = ''DELETE'', URL = ''/products/schedule'', QueryParam = Map.empty,
         Body = Some body\<rparr> net)"

definition RemoveProductsFromSchedule ::
  "Client \<Rightarrow> string list \<Rightarrow> 'd APIResponse Network \<Rightarrow>
   (error + 'd APIResponse) \<times> Request list" where
  "RemoveProductsFromSchedule c identifiers net =
     (let body = [''identifiers'' \<mapsto> Join identifiers '',''] in
      Execute c
        \<lparr>Method = ''DELETE'', URL = ''/products/schedule'', QueryParam = Map.empty,
         Body = Some body\<rparr> net)"

definition GetUsage ::
  "Client \<Rightarrow> 'd APIResponse Network \<Rightarrow> (error + 'd APIResponse) \<times> Request list" where
  "GetUsage c net =
     Execute c \<lparr>Method = ''GET'', URL = ''/usage'', QueryParam = Map.empty, Body = None\<rparr> net"

subsection \<open>How a call treats a transport failure\<close>

text \<open>
  A call, as a function of the network, passes transport failures on when: it sends
  exactly one request; if the network gives no response to that request, the call
  returns the library's error for that failure unchanged; and whatever the network does,
  an error the call returns is neither a Network error nor a Timeout error.
\<close>

definition passes_failures_on :: "('a Network \<Rightarrow> (error + 'a) \<times> Request list) \<Rightarrow> bool" where
  "passes_failures_on call =
     (\<forall>net. \<exists>req. snd (call net) = [req] \<and>
        (\<forall>f. net req = NoResponse f \<longrightarrow> fst (call net) = Inl (LibraryError f)) \<and>
        (\<forall>e. fst (call net) = Inl e \<longrightarrow> kind_of e \<noteq> KNetwork \<and> kind_of e \<noteq> KTimeout))"

section \<open>Auxiliary facts\<close>

subsection \<open>The matcher decides the denoted language\<close>

lemma nullable_lang: "nullable r \<longleftrightarrow> [] \<in> lang r"
  by (induction r) (auto intro: star.intros)

lemma star_cons:
  "c # w \<in> star L \<longleftrightarrow> (\<exists>u v. w = u @ v \<and> c # u \<in> L \<and> v \<in> star L)"
proof
  assume "c # w \<in> star L"
  then show "\<exists>u v. w = u @ v \<and> c # u \<in> L \<and> v \<in> star L"
  proof (induction "c # w" arbitrary: w rule: star.induct)
    case (star_step u v)
    then show ?case
      by (cases u) auto
  qed
next
  assume "\<exists>u v. w = u @ v \<and> c # u \<in> L \<and> v \<in> star L"
  then obtain u v where "w = u @ v" "c # u \<in> L" "v \<in> star L" by blast
  then show "c # w \<in> star L"
    using star.star_step [of "c # u" L v] by simp
qed

lemma lang_deriv: "w \<in> lang (deriv c r) \<longleftrightarrow> c # w \<in> lang r"
proof (induction r arbitrary: w)
  case (Seq r s)
  then show ?case
    by (auto simp: nullable_lang Cons_eq_append_conv)
next
  case (Star r)
  then show ?case
    by (auto simp: star_cons)
qed auto

lemma accepts_lang: "accepts r w \<longleftrightarrow> w \<in> lang r"
  by (induction w arbitrary: r) (simp_all add: nullable_lang lang_deriv)

lemma lang_Str: "lang (Str s) = {s}"
  by (induction s) auto

lemma star_class:
  "w \<in> star {w. \<exists>c. w = [c] \<and> P c} \<longleftrightarrow> list_all P w"
proof (induction w)
  case Nil
  show ?case by (simp add: star.star_empty)
next
  case (Cons a w)
  then show ?case by (auto simp: star_cons)
qed

lemma in_ranges_alnum:
  "in_ranges [(CHR ''a'', CHR ''z''), (CHR ''A'', CHR ''Z''), (CHR ''0'', CHR ''9'')]
     = alphanumeric"
  by (rule ext) (simp add: in_ranges_def alphanumeric_def)

lemma lang_Plus_Class:
  "w \<in> lang (Plus (Class rs)) \<longleftrightarrow> w \<noteq> [] \<and> list_all (in_ranges rs) w"
proof (cases w)
  case Nil
  then show ?thesis by (simp add: Plus_def)
next
  case (Cons a v)
  have "a # v \<in> lang (Plus (Class rs)) \<longleftrightarrow> in_ranges rs a \<and> list_all (in_ranges rs) v"
  proof
    assume "a # v \<in> lang (Plus (Class rs))"
    then show "in_ranges rs a \<and> list_all (in_ranges rs) v"
      by (auto simp: Plus_def star_class)
  next
    assume h: "in_ranges rs a \<and> list_all (in_ranges rs) v"
    have "a # v = [a] @ v" by simp
    moreover have "[a] \<in> lang (Class rs)" using h by simp
    moreover have "v \<in> lang (Star (Class rs))" using h by (simp add: star_class)
    ultimately show "a # v \<in> lang (Plus (Class rs))"
      unfolding Plus_def lang.simps(5) by blast
  qed
  with Cons show ?thesis by simp
qed

lemma key_pattern_lang: "k \<in> lang key_pattern \<longleftrightarrow> spec_key_format k"
proof
  let ?suffixes = "Plus (Class [(CHR ''a'', CHR ''z''), (CHR ''A'', CHR ''Z''), (CHR ''0'', CHR ''9'')])"
  assume "k \<in> lang key_pattern"
  then obtain v1 where k: "k = ''ss_'' @ v1"
    and v1: "v1 \<in> lang (Seq (Alt (Str ''live'') (Str ''test'')) (Seq (Lit (CHR ''_'')) ?suffixes))"
    unfolding key_pattern_def lang.simps(5) lang_Str by blast
  from v1 obtain env v2 where v1': "v1 = env @ v2" and env: "env = ''live'' \<or> env = ''test''"
    and v2: "v2 \<in> lang (Seq (Lit (CHR ''_'')) ?suffixes)"
    unfolding lang.simps(5) lang.simps(6) lang_Str by blast
  from v2 obtain suffix where v2': "v2 = ''_'' @ suffix" and suffix: "suffix \<in> lang ?suffixes"
    unfolding lang.simps(5) lang.simps(3) by blast
  from suffix have "suffix \<noteq> [] \<and> list_all alphanumeric suffix"
    by (simp add: lang_Plus_Class in_ranges_alnum)
  with k v1' v2' env show "spec_key_format k"
    unfolding spec_key_format_def by blast
next
  let ?suffixes = "Plus (Class [(CHR ''a'', CHR ''z''), (CHR ''A'', CHR ''Z''), (CHR ''0'', CHR ''9'')])"
  assume "spec_key_format k"
  then obtain env suffix where k: "k = ''ss_'' @ env @ ''_'' @ suffix"
    and env: "env = ''live'' \<or> env = ''test''"
    and suffix: "suffix \<noteq> []" "list_all alphanumeric suffix"
    unfolding spec_key_format_def by blast
  from suffix have s1: "suffix \<in> lang ?suffixes"
    by (simp add: lang_Plus_Class in_ranges_alnum)
  have s2: "''_'' @ suffix \<in> lang (Seq (Lit (CHR ''_'')) ?suffixes)"
    unfolding lang.simps(5) lang.simps(3) using s1 by blast
  have s3: "env \<in> lang (Alt (Str ''live'') (Str ''test''))"
    using env unfolding lang.simps(6) lang_Str by blast
  have s4: "env @ ''_'' @ suffix
      \<in> lang (Seq (Alt (Str ''live'') (Str ''test'')) (Seq (Lit (CHR ''_'')) ?suffixes))"
    unfolding lang.simps(5) [of "Alt (Str ''live'') (Str ''test'')"] using s2 s3 by blast
  have s5: "''ss_'' \<in> lang (Str ''ss_'')"
    unfolding lang_Str by simp
  show "k \<in> lang key_pattern"
    unfolding key_pattern_def k lang.simps(5) [of "Str ''ss_''"] using s4 s5 by blast
qed

lemma key_accepted: "MatchString_anchored key_pattern k \<longleftrightarrow> spec_key_format k"
  by (simp add: MatchString_anchored_def accepts_lang key_pattern_lang)

subsection \<open>Options, sample keys and the sample client\<close>

lemma options_keep_key:
  "list_all provided_option options \<Longrightarrow>
   APIKey (fold (\<lambda>option c. option c) options cfg) = APIKey cfg"
  by (induction options arbitrary: cfg)
     (auto simp: provided_option_def WithBaseURL_def WithTimeout_def)

lemma spec_key_format_samples:
  "\<not> spec_key_format []" "\<not> spec_key_format ''sk_live_abc123''"
  "\<not> spec_key_format ''ss-live-abc123''"
  by (simp_all add: spec_key_format_def)

lemma provided_option_samples:
  "provided_option (WithTimeout t)" "provided_option (WithBaseURL u)"
  by (auto simp: provided_option_def)

lemma placeholder_key_no_match: "\<not> MatchString_anchored key_pattern ''prefix_live_abc123''"
  by code_simp

lemma live_key_match: "MatchString_anchored key_pattern ''ss_live_abc123''"
  by code_simp

lemma new_live_client: "NewClient ''ss_live_abc123'' [] = (Inr live_client, [])"
  by (simp add: NewClient_def Let_def live_key_match live_client_def Second_def Version_def)

lemma new_client_callbacks:
  "NewClient apiKey options = (Inr c, sent) \<Longrightarrow>
   run_callbacks (afterResponse (client c)) resp =
     (if IsError resp then Some (handleErrorResponse resp) else None)"
  by (auto simp: NewClient_def Let_def split: if_splits)

subsection \<open>Requests and joined identifiers\<close>

lemma Execute_sent: "snd (Execute c req net) = [req]"
  by (simp add: Execute_def split: Reply.split option.split)

lemma Execute_no_response:
  "net req = NoResponse f \<Longrightarrow> fst (Execute c req net) = Inl (LibraryError f)"
  by (simp add: Execute_def)

lemma Execute_answered:
  assumes "NewClient apiKey options = (Inr c, sent)"
  shows "fst (Execute c req (answering resp result)) =
           (if IsError resp then Inl (handleErrorResponse resp) else Inr result)"
  by (simp add: Execute_def answering_def new_client_callbacks [OF assms])

lemma foldl_join_prefix:
  "foldl (\<lambda>b s. b @ sep @ s) (a @ x) rest = a @ foldl (\<lambda>b s. b @ sep @ s) x rest"
  by (induction rest arbitrary: x) simp_all

lemma Join_comma_joined: "Join elems '','' = comma_joined elems"
proof (induction elems rule: comma_joined.induct)
  case (3 x y ys)
  have "Join (x # y # ys) '','' = foldl (\<lambda>b s. b @ '','' @ s) (x @ '','' @ y) ys"
    by (simp add: Join_def)
  also have "\<dots> = (x @ '','') @ foldl (\<lambda>b s. b @ '','' @ s) y ys"
    using foldl_join_prefix [of "'',''" "x @ '',''" y ys] by simp
  also have "foldl (\<lambda>b s. b @ '','' @ s) y ys = Join (y # ys) '',''"
    by (cases ys) (simp_all add: Join_def)
  finally show ?case using 3 by simp
qed (simp_all add: Join_def)

lemma with_format_ids: "with_format format params ''ids'' = params ''ids''"
  by (simp add: with_format_def)

lemma with_retailer_ids: "with_retailer retailer params ''ids'' = params ''ids''"
  by (simp add: with_retailer_def)

lemma with_retailer_arg_identifiers:
  "with_retailer_arg retailer body ''identifiers'' = body ''identifiers''"
  by (simp add: with_retailer_arg_def)

subsection \<open>Numbers and phrases of the fallback line\<close>

lemma Sprintf_d_samples: "Sprintf_d 500 = ''500''" "Sprintf_d 401 = ''401''"
  by code_simp+

lemma StatusText_samples:
  "StatusText 500 = ''Internal Server Error''" "StatusText 401 = ''Unauthorized''"
  by (simp_all add: StatusText_def status_phrases_def)

lemma handleErrorResponse_kind:
  "kind_of (handleErrorResponse resp)
     \<in> {KGeneric, KAuthentication, KNotFound, KValidation, KRateLimit}"
  by (simp add: handleErrorResponse_def Let_def)

subsection \<open>Errors of one round trip\<close>

lemma Execute_error_kind:
  assumes "NewClient apiKey options = (Inr c, sent)"
    and "fst (Execute c req net) = Inl e"
  shows "kind_of e \<noteq> KNetwork \<and> kind_of e \<noteq> KTimeout"
proof (cases "net req")
  case (NoResponse f)
  with assms(2) have "e = LibraryError f"
    by (simp add: Execute_def)
  then show ?thesis by simp
next
  case (Undecoded resp msg)
  with assms(2) have "e = DecodeError msg"
    by (simp add: Execute_def)
  then show ?thesis by simp
next
  case (Responded resp result)
  with assms(2) have "e = handleErrorResponse resp"
    by (simp add: Execute_def new_client_callbacks [OF assms(1)] split: if_splits)
  then show ?thesis
    using handleErrorResponse_kind [of resp] by auto
qed

lemma Execute_passes:
  assumes "NewClient apiKey options = (Inr c, sent)"
  shows "passes_failures_on (Execute c req)"
  unfolding passes_failures_on_def
proof
  fix net :: "'a Network"
  have "snd (Execute c req net) = [req]"
    by (rule Execute_sent)
  moreover have "\<forall>f. net req = NoResponse f \<longrightarrow> fst (Execute c req net) = Inl (LibraryError f)"
    by (simp add: Execute_no_response)
  moreover have "\<forall>e. fst (Execute c req net) = Inl e \<longrightarrow>
      kind_of e \<noteq> KNetwork \<and> kind_of e \<noteq> KTimeout"
    using Execute_error_kind [OF assms] by blast
  ultimately show "\<exists>r. snd (Execute c req net) = [r] \<and>
      (\<forall>f. net r = NoResponse f \<longrightarrow> fst (Execute c req net) = Inl (LibraryError f)) \<and>
      (\<forall>e. fst (Execute c req net) = Inl e \<longrightarrow> kind_of e \<noteq> KNetwork \<and> kind_of e \<noteq> KTimeout)"
    by blast
qed

section \<open>Verified properties\<close>

subsection \<open>Usage accessors\<close>

text \<open>
  C10. On a response envelope whose optional Meta is absent, the accessors CreditsUsed()
  and CreditsRemaining() return 0; when Meta is present they return the Meta object's
  fields of the same names.
\<close>

theorem credits_accessors:
  "APIResponse_CreditsUsed (r\<lparr>Meta := None\<rparr>) = 0 \<and>
   APIResponse_CreditsRemaining (r\<lparr>Meta := None\<rparr>) = 0 \<and>
   APIResponse_CreditsUsed (r\<lparr>Meta := Some m\<rparr>) = CreditsUsed m \<and>
   APIResponse_CreditsRemaining (r\<lparr>Meta := Some m\<rparr>) = CreditsRemaining m"
  by (simp add: APIResponse_CreditsUsed_def APIResponse_CreditsRemaining_def)

subsection \<open>Error kinds follow the status code\<close>

text \<open>
  C1. The error mapping yields one error value whose kind is fixed by the status code:
  401 authentication, 404 not found, 422 validation, 429 rate limit, and every other
  status the generic API error; the error carries the status code it was made from.
\<close>

theorem error_kind_by_status:
  "kind_of (handleErrorResponse resp) =
     (if StatusCode resp = 401 then KAuthentication
      else if StatusCode resp = 404 then KNotFound
      else if StatusCode resp = 422 then KValidation
      else if StatusCode resp = 429 then KRateLimit
      else KGeneric) \<and>
   status_of (handleErrorResponse resp) = Some (StatusCode resp)"
  by (simp add: handleErrorResponse_def Let_def)

subsection \<open>Messages\<close>

text \<open>
  C2, as the code has it. When the decoded error body carries a non-empty \<open>error\<close>
  field, the generic API error (every status other than 401, 404, 422 and 429) has that
  field's value as its message; the authentication, not-found, validation and rate-limit
  errors carry the fixed message of their kind, whatever the body says.
\<close>

theorem body_message:
  assumes "ErrorObj resp = Some e" and "Error e \<noteq> []"
  shows "message_of (handleErrorResponse resp) =
     Some (if StatusCode resp = 401 then ''Authentication failed. Check your API key.''
           else if StatusCode resp = 404 then ''Resource not found''
           else if StatusCode resp = 422 then
             ''Request validation failed. Check your parameters.''
           else if StatusCode resp = 429 then
             ''Rate limit exceeded. Please slow down your requests.''
           else Error e)"
  using assms by (simp add: handleErrorResponse_def Let_def errorMsg_def)

theorem body_message_witness:
  \<open>ErrorObj \<lparr>StatusCode = 503, RespHeader = [(''Content-Type'', ''application/json'')],
      RespBody = ''{"error":"maintenance"}'', ErrorObj = Some \<lparr>Error = ''maintenance''\<rparr>\<rparr>
     = Some \<lparr>Error = ''maintenance''\<rparr> \<and>
   Error \<lparr>Error = ''maintenance''\<rparr> \<noteq> [] \<and>
   message_of (handleErrorResponse
     \<lparr>StatusCode = 503, RespHeader = [(''Content-Type'', ''application/json'')],
      RespBody = ''{"error":"maintenance"}'', ErrorObj = Some \<lparr>Error = ''maintenance''\<rparr>\<rparr>)
     = Some ''maintenance''\<close>
  using body_message
    [of \<open>\<lparr>StatusCode = 503, RespHeader = [(''Content-Type'', ''application/json'')],
      RespBody = ''{"error":"maintenance"}'', ErrorObj = Some \<lparr>Error = ''maintenance''\<rparr>\<rparr>\<close>
        \<open>\<lparr>Error = ''maintenance''\<rparr>\<close>]
  by simp

text \<open>
  The scenario of C2 on the code: a lookup that receives HTTP 429 with the body
  \<^verbatim>\<open>{"error":"too many requests"}\<close> returns a rate-limit error whose message is the
  fixed text, not the body's.
\<close>

theorem rate_limit_message_counterexample:
  \<open>fst (GetProductDetails live_client ''012345678901'' []
          (answering
             \<lparr>StatusCode = 429, RespHeader = [(''Content-Type'', ''application/json'')],
              RespBody = ''{"error":"too many requests"}'',
              ErrorObj = Some \<lparr>Error = ''too many requests''\<rparr>\<rparr>
             \<lparr>Success = False, Data = (), Message = [], Meta = None\<rparr>))
   = Inl (RateLimitError ''Rate limit exceeded. Please slow down your requests.'' 429)\<close>
  by (simp add: GetProductDetails_def Execute_def answering_def live_client_def IsError_def
      handleErrorResponse_def)

text \<open>
  C3, as the code has it. When the error body is absent or did not parse (no decoded
  object, or one whose \<open>error\<close> field is empty), every status other than 401, 404, 422
  and 429 gives a generic API error whose message is \<^verbatim>\<open>HTTP <code>: <reason phrase>\<close>;
  for HTTP 500 that is \<^verbatim>\<open>HTTP 500: Internal Server Error\<close>. For 401, 404, 422 and 429
  the error is the one of that kind with its fixed message.
\<close>

theorem fallback_message:
  assumes "ErrorObj resp = None \<or> ErrorObj resp = Some \<lparr>Error = []\<rparr>"
  shows "handleErrorResponse resp =
           (if StatusCode resp = 401 then
              AuthenticationError ''Authentication failed. Check your API key.'' 401
            else if StatusCode resp = 404 then
              NotFoundError ''Resource not found'' 404
            else if StatusCode resp = 422 then
              ValidationError ''Request validation failed. Check your parameters.'' 422
            else if StatusCode resp = 429 then
              RateLimitError ''Rate limit exceeded. Please slow down your requests.'' 429
            else
              APIError
                (''HTTP '' @ Sprintf_d (StatusCode resp) @ '': '' @ StatusText (StatusCode resp))
                (StatusCode resp)) \<and>
         (StatusCode resp = 500 \<longrightarrow>
            handleErrorResponse resp = APIError ''HTTP 500: Internal Server Error'' 500)"
  using assms Sprintf_d_samples(1) StatusText_samples(1)
  by (auto simp add: handleErrorResponse_def Let_def errorMsg_def)

theorem fallback_message_witness:
  "ErrorObj \<lparr>StatusCode = 500, RespHeader = [(''Content-Type'', ''text/html'')],
      RespBody = ''<html>upstream failure</html>'', ErrorObj = None\<rparr> = None \<and>
   handleErrorResponse
     \<lparr>StatusCode = 500, RespHeader = [(''Content-Type'', ''text/html'')],
      RespBody = ''<html>upstream failure</html>'', ErrorObj = None\<rparr>
     = APIError ''HTTP 500: Internal Server Error'' 500 \<and>
   ErrorObj \<lparr>StatusCode = 404, RespHeader = [(''Content-Type'', ''application/json'')],
      RespBody = ''{not json'', ErrorObj = Some \<lparr>Error = []\<rparr>\<rparr> = Some \<lparr>Error = []\<rparr> \<and>
   handleErrorResponse
     \<lparr>StatusCode = 404, RespHeader = [(''Content-Type'', ''application/json'')],
      RespBody = ''{not json'', ErrorObj = Some \<lparr>Error = []\<rparr>\<rparr>
     = NotFoundError ''Resource not found'' 404"
  using fallback_message
    [of "\<lparr>StatusCode = 500, RespHeader = [(''Content-Type'', ''text/html'')],
      RespBody = ''<html>upstream failure</html>'', ErrorObj = None\<rparr>", THEN conjunct2]
    fallback_message
    [of "\<lparr>StatusCode = 404, RespHeader = [(''Content-Type'', ''application/json'')],
      RespBody = ''{not json'', ErrorObj = Some \<lparr>Error = []\<rparr>\<rparr>", THEN conjunct1]
  by simp

text \<open>
  C3 as stated fails for the four statuses with a fixed message: HTTP 401 with a body
  that does not parse gives the authentication error's fixed text, not the line
  \<^verbatim>\<open>HTTP 401: Unauthorized\<close>.
\<close>

theorem fallback_message_counterexample:
  "handleErrorResponse
     \<lparr>StatusCode = 401, RespHeader = [(''Content-Type'', ''text/html'')],
      RespBody = ''<html>denied</html>'', ErrorObj = None\<rparr>
     = AuthenticationError ''Authentication failed. Check your API key.'' 401 \<and>
   ''HTTP '' @ Sprintf_d 401 @ '': '' @ StatusText 401 = ''HTTP 401: Unauthorized''"
  by (simp add: handleErrorResponse_def Sprintf_d_samples StatusText_samples)

subsection \<open>Transport failures\<close>

text \<open>
  C4, as the code has it. Each of the twelve endpoint methods of a client made by
  NewClient sends one request; when the network gives no response to it, whether by a
  failed connection or by an exceeded deadline, the method returns the HTTP library's
  own error unchanged; and whatever the network does, the error a method returns is
  never a Network error nor a Timeout error.
\<close>

theorem transport_failure_passed_on:
  assumes "NewClient apiKey options = (Inr c, sent)"
  shows "passes_failures_on (GetProductDetails c identifier format) \<and>
         passes_failures_on (SearchProducts c query limit offset) \<and>
         passes_failures_on (GetProductDetailsBatch c identifiers format) \<and>
         passes_failures_on (GetCurrentOffers c identifier retailer format) \<and>
         passes_failures_on (GetCurrentOffersBatch c identifiers retailer format) \<and>
         passes_failures_on (GetPriceHistory c identifier startDate endDate retailer format) \<and>
         passes_failures_on (ScheduleProductMonitoring c identifier frequency retailers) \<and>
         passes_failures_on (ScheduleProductMonitoringBatch c identifiers frequency retailers) \<and>
         passes_failures_on (GetScheduledProducts c) \<and>
         passes_failures_on (RemoveProductFromSchedule c identifier) \<and>
         passes_failures_on (RemoveProductsFromSchedule c identifiers) \<and>
         passes_failures_on (GetUsage c)"
proof -
  note E = Execute_passes [OF assms, unfolded passes_failures_on_def]
  show ?thesis
    unfolding passes_failures_on_def GetProductDetails_def SearchProducts_def
      GetProductDetailsBatch_def GetCurrentOffers_def GetCurrentOffersBatch_def
      GetPriceHistory_def ScheduleProductMonitoring_def ScheduleProductMonitoringBatch_def
      GetScheduledProducts_def RemoveProductFromSchedule_def RemoveProductsFromSchedule_def
      GetUsage_def Let_def
    by (intro conjI E)
qed

theorem transport_failure_passed_on_witness:
  "NewClient ''ss_live_abc123'' [] = (Inr live_client, []) \<and>
   fst (GetProductDetails live_client ''012345678901'' []
          (unreachable (DeadlineExceeded ''context deadline exceeded'')
             :: unit APIResponse Network))
     = Inl (LibraryError (DeadlineExceeded ''context deadline exceeded'')) \<and>
   fst (GetProductDetails live_client ''012345678901'' []
          (unreachable (ConnectionFailed ''connection refused'') :: unit APIResponse Network))
     = Inl (LibraryError (ConnectionFailed ''connection refused'')) \<and>
   kind_of (LibraryError (ConnectionFailed ''connection refused'')) \<noteq> KNetwork \<and>
   kind_of (LibraryError (ConnectionFailed ''connection refused'')) \<noteq> KTimeout"
proof -
  let ?call = "GetProductDetails live_client ''012345678901'' []
                 :: unit APIResponse Network \<Rightarrow> (error + unit APIResponse) \<times> Request list"
  have p: "passes_failures_on ?call"
    by (rule transport_failure_passed_on [OF new_live_client, THEN conjunct1])
  have no_response: "fst (?call (unreachable f)) = Inl (LibraryError f)" for f
    using p unfolding passes_failures_on_def
    by (auto simp: unreachable_def)
  have "kind_of (LibraryError (ConnectionFailed ''connection refused'')) \<noteq> KNetwork \<and>
        kind_of (LibraryError (ConnectionFailed ''connection refused'')) \<noteq> KTimeout"
    using p no_response [of "ConnectionFailed ''connection refused''"]
    unfolding passes_failures_on_def by blast
  with new_live_client no_response show ?thesis by simp
qed

text \<open>
  C4 as stated fails: a refused connection and an exceeded deadline both come back as
  the library's error, not as a Network error or a Timeout error.
\<close>

theorem transport_failure_counterexample:
  "fst (GetProductDetails live_client ''012345678901'' []
          (unreachable (ConnectionFailed ''connection refused'') :: unit APIResponse Network))
     = Inl (LibraryError (ConnectionFailed ''connection refused'')) \<and>
   fst (GetProductDetails live_client ''012345678901'' []
          (unreachable (DeadlineExceeded ''context deadline exceeded'')
             :: unit APIResponse Network))
     = Inl (LibraryError (DeadlineExceeded ''context deadline exceeded''))"
  by (simp add: GetProductDetails_def Execute_def unreachable_def)

subsection \<open>Key validation at construction\<close>

text \<open>
  C5. For every API key that is not of the form \<open>ss\<close>, underscore, \<open>live\<close> or \<open>test\<close>,
  underscore, one or more letters and digits (the empty key, a wrong prefix and a wrong
  separator included), and whatever base URL and timeout options are given, NewClient
  returns a plain configuration error and sends no request.
\<close>

theorem malformed_key_rejected:
  assumes "\<not> spec_key_format apiKey" and "list_all provided_option options"
  shows "NewClient apiKey options =
    (Inl (Errorf
       (if apiKey = [] then ''API key is required. Get one at https://shopsavvy.com/data''
        else ''invalid API key format. API keys should start with ss_live_ or ss_test_'')),
     [])"
  using assms by (simp add: NewClient_def Let_def options_keep_key key_accepted)

theorem malformed_key_rejected_witness:
  "\<not> spec_key_format [] \<and> \<not> spec_key_format ''sk_live_abc123'' \<and>
   \<not> spec_key_format ''ss-live-abc123'' \<and>
   list_all provided_option [WithTimeout (5 * Second)] \<and>
   NewClient [] [WithTimeout (5 * Second)] =
     (Inl (Errorf ''API key is required. Get one at https://shopsavvy.com/data''), []) \<and>
   NewClient ''sk_live_abc123'' [WithTimeout (5 * Second)] =
     (Inl (Errorf ''invalid API key format. API keys should start with ss_live_ or ss_test_''),
      []) \<and>
   NewClient ''ss-live-abc123'' [WithTimeout (5 * Second)] =
     (Inl (Errorf ''invalid API key format. API keys should start with ss_live_ or ss_test_''),
      [])"
  using malformed_key_rejected [of "[]" "[WithTimeout (5 * Second)]"]
        malformed_key_rejected [of "''sk_live_abc123''" "[WithTimeout (5 * Second)]"]
        malformed_key_rejected [of "''ss-live-abc123''" "[WithTimeout (5 * Second)]"]
  by (simp add: spec_key_format_samples provided_option_samples)

text \<open>
  C6. For every key \<open>ss_live_<suffix>\<close> or \<open>ss_test_<suffix>\<close> whose suffix is a non-empty
  run of letters and digits, and whatever base URL and timeout options are given,
  NewClient succeeds without sending a request. The client it returns is ready to use:
  its configuration is the default one with the key and the options applied; its HTTP
  client has that base URL and timeout, the bearer, content-type and user-agent headers,
  the registered error object and the error-mapping callback; and a lookup through it
  returns the decoded result of a successful response and the mapped error of a failed
  one.
\<close>

theorem well_formed_key_accepted:
  assumes "env = ''live'' \<or> env = ''test''" and "suffix \<noteq> []"
    and "list_all alphanumeric suffix" and "list_all provided_option options"
  shows "\<exists>cfg c.
           cfg = fold (\<lambda>option c. option c) options
                   \<lparr>APIKey = ''ss_'' @ env @ ''_'' @ suffix,
                    BaseURL = ''https://api.shopsavvy.com/v1'', Timeout = 30 * Second\<rparr> \<and>
           APIKey cfg = ''ss_'' @ env @ ''_'' @ suffix \<and>
           c = \<lparr>config = cfg,
                client =
                  \<lparr>HostURL = BaseURL cfg,
                   ClientTimeout = Timeout cfg,
                   Headers =
                     [(''Authorization'', ''Bearer '' @ ''ss_'' @ env @ ''_'' @ suffix),
                      (''Content-Type'', ''application/json''),
                      (''User-Agent'', ''ShopSavvy-Go-SDK/1.0.1'')],
                   ErrorProto = Some \<lparr>Error = []\<rparr>,
                   afterResponse =
                     [\<lambda>resp. if IsError resp then Some (handleErrorResponse resp)
                             else None]\<rparr>\<rparr> \<and>
           NewClient (''ss_'' @ env @ ''_'' @ suffix) options = (Inr c, []) \<and>
           fst (GetProductDetails c identifier format (answering resp result)) =
             (if IsError resp then Inl (handleErrorResponse resp) else Inr result)"
proof -
  let ?key = "''ss_'' @ env @ ''_'' @ suffix"
  let ?cfg = "fold (\<lambda>option c. option c) options
                \<lparr>APIKey = ?key, BaseURL = ''https://api.shopsavvy.com/v1'',
                 Timeout = 30 * Second\<rparr>"
  let ?c = "\<lparr>config = ?cfg,
             client =
               \<lparr>HostURL = BaseURL ?cfg,
                ClientTimeout = Timeout ?cfg,
                Headers =
                  [(''Authorization'', ''Bearer '' @ ?key),
                   (''Content-Type'', ''application/json''),
                   (''User-Agent'', ''ShopSavvy-Go-SDK/1.0.1'')],
                ErrorProto = Some \<lparr>Error = []\<rparr>,
                afterResponse =
                  [\<lambda>resp. if IsError resp then Some (handleErrorResponse resp) else None]\<rparr>\<rparr>"
  have key: "APIKey ?cfg = ?key"
    using assms(4) by (simp add: options_keep_key)
  have "spec_key_format ?key"
    unfolding spec_key_format_def using assms(1-3) by blast
  then have "MatchString_anchored key_pattern ?key"
    by (simp only: key_accepted)
  with key have new: "NewClient ?key options = (Inr ?c, [])"
    by (simp add: NewClient_def Let_def Version_def)
  have "fst (GetProductDetails ?c identifier format (answering resp result)) =
          (if IsError resp then Inl (handleErrorResponse resp) else Inr result)"
    unfolding GetProductDetails_def Let_def by (rule Execute_answered [OF new])
  with key new show ?thesis by blast
qed

theorem well_formed_key_accepted_witness:
  "list_all alphanumeric ''abc123'' \<and>
   list_all provided_option [WithBaseURL ''http://localhost:8080''] \<and>
   (\<exists>c. c = \<lparr>config = \<lparr>APIKey = ''ss_test_abc123'', BaseURL = ''http://localhost:8080'',
                        Timeout = 30000000000\<rparr>,
             client =
               \<lparr>HostURL = ''http://localhost:8080'',
                ClientTimeout = 30000000000,
                Headers =
                  [(''Authorization'', ''Bearer ss_test_abc123''),
                   (''Content-Type'', ''application/json''),
                   (''User-Agent'', ''ShopSavvy-Go-SDK/1.0.1'')],
                ErrorProto = Some \<lparr>Error = []\<rparr>,
                afterResponse =
                  [\<lambda>resp. if IsError resp then Some (handleErrorResponse resp) else None]\<rparr>\<rparr> \<and>
        NewClient ''ss_test_abc123'' [WithBaseURL ''http://localhost:8080''] = (Inr c, []) \<and>
        fst (GetProductDetails c ''012345678901'' []
               (answering
                  \<lparr>StatusCode = 404, RespHeader = [], RespBody = [], ErrorObj = None\<rparr>
                  \<lparr>Success = False, Data = (), Message = [], Meta = None\<rparr>))
          = Inl (NotFoundError ''Resource not found'' 404) \<and>
        fst (GetProductDetails c ''012345678901'' []
               (answering
                  \<lparr>StatusCode = 200, RespHeader = [], RespBody = [], ErrorObj = None\<rparr>
                  \<lparr>Success = True, Data = (), Message = [], Meta = None\<rparr>))
          = Inr \<lparr>Success = True, Data = (), Message = [], Meta = None\<rparr>)"
proof -
  have h1: "''test'' = ''live'' \<or> ''test'' = ''test''" by simp
  have h2: "''abc123'' \<noteq> []" by simp
  have h3: "list_all alphanumeric ''abc123''"
    by (simp add: alphanumeric_def between_def)
  have h4: "list_all provided_option [WithBaseURL ''http://localhost:8080'']"
    by (simp add: provided_option_samples)
  note t = well_formed_key_accepted [OF h1 h2 h3 h4, of "''012345678901''" "[]"]
  show ?thesis
    using h3 h4
      t [of "\<lparr>StatusCode = 404, RespHeader = [], RespBody = [], ErrorObj = None\<rparr>"
            "\<lparr>Success = False, Data = (), Message = [], Meta = None\<rparr>"]
      t [of "\<lparr>StatusCode = 200, RespHeader = [], RespBody = [], ErrorObj = None\<rparr>"
            "\<lparr>Success = True, Data = (), Message = [], Meta = None\<rparr>"]
    by (simp add: WithBaseURL_def Second_def IsError_def handleErrorResponse_def)
qed

subsection \<open>Defaults\<close>

text \<open>
  C7, as the code has it. Constructing a client with the key \<open>ss_live_abc123\<close> and no
  options succeeds and yields a client whose base URL is
  \<^verbatim>\<open>https://api.shopsavvy.com/v1\<close> and whose request timeout is 30 seconds, that is
  30000000000 nanoseconds.
\<close>

theorem default_client:
  "\<exists>c. NewClient ''ss_live_abc123'' [] = (Inr c, []) \<and>
       BaseURL (config c) = ''https://api.shopsavvy.com/v1'' \<and>
       Timeout (config c) = 30 * Second \<and>
       HostURL (client c) = ''https://api.shopsavvy.com/v1'' \<and>
       ClientTimeout (client c) = 30 * Second \<and> 30 * Second = 30000000000"
  by (simp add: NewClient_def Let_def live_key_match Second_def)

text \<open>
  The key of C7 as written, \<open>prefix_live_abc123\<close>, does not start with \<open>ss_\<close>: NewClient
  rejects it.
\<close>

theorem placeholder_key_counterexample:
  "NewClient ''prefix_live_abc123'' [] =
     (Inl (Errorf ''invalid API key format. API keys should start with ss_live_ or ss_test_''),
      [])"
  by (simp add: NewClient_def Let_def placeholder_key_no_match)

subsection \<open>Batch methods\<close>

text \<open>
  C8. For every list of identifiers, each batch method sends exactly one request, and in
  it one parameter holds the identifiers joined with commas in input order: the query
  parameter \<open>ids\<close> of the two batch lookups, the body field \<open>identifiers\<close> of batch
  scheduling and batch removal.
\<close>

theorem batch_identifiers_joined:
  "(\<exists>req. snd (GetProductDetailsBatch c identifiers format net1) = [req] \<and>
          QueryParam req ''ids'' = Some (comma_joined identifiers)) \<and>
   (\<exists>req. snd (GetCurrentOffersBatch c identifiers retailer format net2) = [req] \<and>
          QueryParam req ''ids'' = Some (comma_joined identifiers)) \<and>
   (\<exists>req body.
      snd (ScheduleProductMonitoringBatch c identifiers frequency retailers net3) = [req] \<and>
      Body req = Some body \<and> body ''identifiers'' = Some (comma_joined identifiers)) \<and>
   (\<exists>req body. snd (RemoveProductsFromSchedule c identifiers net4) = [req] \<and>
      Body req = Some body \<and> body ''identifiers'' = Some (comma_joined identifiers))"
  by (simp add: GetProductDetailsBatch_def GetCurrentOffersBatch_def
      ScheduleProductMonitoringBatch_def RemoveProductsFromSchedule_def Execute_sent
      with_format_ids with_retailer_ids with_retailer_arg_identifiers Join_comma_joined)

end
